theory Spec2Isabelle
  imports Main "HOL-Library.Sublist"
begin

section \<open>Strings\<close>

text \<open>
  A Python \<open>str\<close> is modelled as a \<open>string\<close>. The model covers the ASCII range, where
  \<open>str.lower\<close> maps \<open>A\<close>..\<open>Z\<close> to \<open>a\<close>..\<open>z\<close> and leaves every other character
  alone. Non-ASCII text (the bullet in the template names) appears as its UTF-8 bytes.
\<close>

definition ascii_uppercase :: string where
  "ascii_uppercase = ''ABCDEFGHIJKLMNOPQRSTUVWXYZ''"

definition ascii_lowercase :: string where
  "ascii_lowercase = ''abcdefghijklmnopqrstuvwxyz''"

definition lower_char :: "char \<Rightarrow> char" where
  "lower_char c =
     (case map_of (zip ascii_uppercase ascii_lowercase) c of
        Some d \<Rightarrow> d
      | None \<Rightarrow> c)"

definition lower :: "string \<Rightarrow> string" where
  "lower s = map lower_char s"

text \<open>
  \<open>s.endswith(e)\<close>: the last \<open>len(e)\<close> characters of \<open>s\<close> are compared with \<open>e\<close>;
  a string shorter than \<open>e\<close> does not end with it.
\<close>

definition endswith :: "string \<Rightarrow> string \<Rightarrow> bool" where
  "endswith s e = (length e \<le> length s \<and> drop (length s - length e) s = e)"

text \<open>\<open>any(l.endswith(e) for e in exts)\<close>\<close>

definition any_endswith :: "string \<Rightarrow> string list \<Rightarrow> bool" where
  "any_endswith l exts = list_ex (\<lambda>e. endswith l e) exts"

section \<open>Paths\<close>

text \<open>
  \<open>os.path.splitext\<close> and \<open>os.path.join\<close> are the POSIX ones of the Python standard
  library. \<open>p.rfind(c)\<close> is the index of the last occurrence of \<open>c\<close>, or \<open>-1\<close>.
\<close>

definition rfind :: "string \<Rightarrow> char \<Rightarrow> int" where
  "rfind p c =
     (if c \<in> set p then int (length p) - 1 - int (length (takeWhile (\<lambda>x. x \<noteq> c) (rev p)))
      else - 1)"

text \<open>
  The loop of \<open>splitext\<close> that skips the leading dots of the last path component: the
  first character between \<open>filenameIndex\<close> and \<open>dotIndex\<close> that is not a dot makes the
  text from the last dot on the extension; a component of dots only has none.
\<close>

function splitext_loop :: "string \<Rightarrow> nat \<Rightarrow> nat \<Rightarrow> string \<times> string" where
  "splitext_loop p filenameIndex dotIndex =
     (if filenameIndex < dotIndex then
        (if take 1 (drop filenameIndex p) \<noteq> ''.'' then (take dotIndex p, drop dotIndex p)
         else splitext_loop p (Suc filenameIndex) dotIndex)
      else (p, []))"
  by pat_completeness auto
termination
  by (relation "measure (\<lambda>(p, filenameIndex, dotIndex). dotIndex - filenameIndex)") auto

declare splitext_loop.simps [simp del]

definition splitext :: "string \<Rightarrow> string \<times> string" where
  "splitext p =
     (let sepIndex = rfind p (CHR ''/'');
          dotIndex = rfind p (CHR ''.'')
      in if dotIndex > sepIndex then splitext_loop p (nat (sepIndex + 1)) (nat dotIndex)
         else (p, []))"

definition os_path_join :: "string \<Rightarrow> string \<Rightarrow> string" where
  "os_path_join a b =
     (if take 1 b = ''/'' then b
      else if a = [] \<or> endswith a ''/'' then a @ b
      else a @ ''/'' @ b)"

text \<open>\<open>s.rstrip("/")\<close>\<close>

definition rstrip_slash :: "string \<Rightarrow> string" where
  "rstrip_slash s = rev (dropWhile (\<lambda>c. c = CHR ''/'') (rev s))"

section \<open>Template catalog\<close>

datatype preset_value = PStr string | PBool bool

record Template =
  id_t :: string
  name :: string
  aspect_ratio :: string
  description :: string
  preset :: "(string \<times> preset_value) list"

text \<open>The bullet U+2022 of the display names, in UTF-8.\<close>

definition bullet :: string where
  "bullet = [char_of (0xE2 :: nat), char_of (0x80 :: nat), char_of (0xA2 :: nat)]"

definition TEMPLATES :: "Template list" where
  "TEMPLATES =
    [ \<lparr> id_t = ''reel-916-bold'',
        name = ''Reel 9:16 '' @ bullet @ '' Bold'',
        aspect_ratio = ''9:16'',
        description = ''Vertical format with bold headline and punchy cuts.'',
        preset = [(''font'', PStr ''Inter ExtraBold''), (''color'', PStr ''#3b82f6''),
                  (''lower_third'', PBool True)] \<rparr>,
      \<lparr> id_t = ''corporate-169-clean'',
        name = ''Corporate 16:9 '' @ bullet @ '' Clean'',
        aspect_ratio = ''16:9'',
        description = ''Clean lower-thirds, logo bug, subtle transitions.'',
        preset = [(''font'', PStr ''Inter Medium''), (''color'', PStr ''#22d3ee''),
                  (''lower_third'', PBool True)] \<rparr>,
      \<lparr> id_t = ''event-11-pop'',
        name = ''Event Montage 1:1 '' @ bullet @ '' Pop'',
        aspect_ratio = ''1:1'',
        description = ''Square montage with beat-matched cuts and stickers.'',
        preset = [(''font'', PStr ''Inter Black''), (''color'', PStr ''#f59e0b''),
                  (''stickers'', PBool True)] \<rparr> ]"

section \<open>Errors\<close>

text \<open>
  A raise is the \<open>Inl\<close> branch of a result. The exceptions are
  \<open>HTTPException(status_code, detail)\<close>, raised by the handlers themselves, and the two
  that \<open>open\<close> and \<open>write\<close> raise and that no handler catches: \<open>OSError\<close> with its
  \<open>errno\<close> and message, and \<open>ValueError\<close> with its message.
\<close>

datatype py_exception = HTTPException nat string | OSError nat string | ValueError string

section \<open>Instant edit\<close>

record InstantEditRequest =
  template_id :: string
  assets :: "string list"
  title :: "string option"
  subtitle :: "string option"
  brand_color :: "string option"
  logo_url :: "string option"

record InstantEditResponse =
  template :: Template
  preview_type :: string
  preview_url :: string
  used_assets :: "string list"
  notes_f :: string

definition video_exts :: "string list" where
  "video_exts = [''.mp4'', ''.mov'', ''.mkv'', ''.webm'']"

definition image_exts :: "string list" where
  "image_exts = [''.jpg'', ''.jpeg'', ''.png'', ''.gif'']"

definition PLACEHOLDER_URL :: string where
  "PLACEHOLDER_URL = ''https://placehold.co/1280x720?text=Instant+Preview''"

definition NOTES :: string where
  "NOTES =
     ''Instant edit applied. This preview uses your first uploaded media. '' @
     ''In a full pipeline, we would trim, add lower-thirds, color grade, '' @
     ''and export in the template's aspect ratio.''"

text \<open>
  One \<open>for url in req.assets\<close> loop over the pair \<open>(preview_url, preview_type)\<close>:
  the first reference whose lower-cased form ends with one of \<open>exts\<close> is stored together
  with the tag \<open>ty\<close> and the loop breaks; a loop that runs to the end leaves the pair as
  it was.
\<close>

fun scan_assets :: "string list \<Rightarrow> string \<Rightarrow> string list \<Rightarrow> string \<times> string \<Rightarrow> string \<times> string" where
  "scan_assets exts ty [] st = st"
| "scan_assets exts ty (u # rest) st =
     (let l = lower u in
      if any_endswith l exts then (u, ty)
      else scan_assets exts ty rest st)"

text \<open>
  Lines 184 to 203 of \<open>instant_edit\<close>: the sentinel pair, the video pass, the image
  pass guarded by \<open>not preview_url\<close>, and the placeholder guarded by the same test.
\<close>

definition pick_preview :: "string list \<Rightarrow> string \<times> string" where
  "pick_preview as =
     (let st0 = ([], ''unknown'');
          st1 = scan_assets video_exts ''video'' as st0;
          st2 = (if fst st1 = [] then scan_assets image_exts ''image'' as st1 else st1);
          st3 = (if fst st2 = [] then (PLACEHOLDER_URL, ''placeholder'') else st2)
      in st3)"

definition instant_edit :: "InstantEditRequest \<Rightarrow> py_exception + InstantEditResponse" where
  "instant_edit req =
     (case find (\<lambda>t. id_t t = template_id req) TEMPLATES of
        None \<Rightarrow> Inl (HTTPException 404 ''Template not found'')
      | Some tpl \<Rightarrow>
          if assets req = [] then Inl (HTTPException 400 ''No assets provided'')
          else
            (let (p_url, p_type) = pick_preview (assets req) in
             Inr \<lparr> template = tpl,
                   preview_type = p_type,
                   preview_url = p_url,
                   used_assets = assets req,
                   notes_f = NOTES \<rparr>))"

section \<open>Upload\<close>

text \<open>
  An uploaded file is its client-supplied name and content type (both may be absent) and
  its bytes. \<open>uuid.uuid4().hex\<close> is a parameter \<open>uuid4_hex\<close>: the \<open>n\<close>-th call
  returns \<open>uuid4_hex n\<close>. The upload directory and the base address of the request are
  parameters too.

  The store is the upload directory, a map from path to bytes, together with the number
  of identifiers drawn so far and the answer of the operating system to an attempt to
  create a file at a path and write given bytes to it: done, or \<open>open\<close> raises and no
  file is made, or a \<open>write\<close> raises and the file is left with some of the bytes.
\<close>

datatype io_outcome = IoOk | OpenRaises py_exception | WriteRaises py_exception string

record UploadFile =
  filename :: "string option"
  content_type :: "string option"
  body :: string

record saved_entry =
  original :: "string option"
  stored_as :: string
  url :: string
  mime :: "string option"

record upload_response =
  count :: nat
  files :: "saved_entry list"

record storage =
  disk :: "string \<rightharpoonup> string"
  uuid_calls :: nat
  io_fault :: "string \<Rightarrow> string \<Rightarrow> io_outcome"

definition SAFE_EXTS :: "string list" where
  "SAFE_EXTS =
     [''.mp4'', ''.mov'', ''.mkv'', ''.webm'',
      ''.jpg'', ''.jpeg'', ''.png'', ''.gif'',
      ''.pdf'', ''.zip'', ''.wav'', ''.mp3'', ''.aac'', ''.m4a'']"

text \<open>
  Lines 126 to 133: the name under which a file is stored, from the drawn identifier and
  the file. \<open>f.filename or ""\<close> is the empty string for an absent name. Both branches
  of the conditional that computes \<open>safe_ext\<close> are \<open>ext\<close>, as in the source.
\<close>

definition stored_name :: "string \<Rightarrow> UploadFile \<Rightarrow> string" where
  "stored_name token f =
     (let ext = snd (splitext (case filename f of None \<Rightarrow> [] | Some n \<Rightarrow> n));
          ext = (if ext \<noteq> [] then lower ext else []);
          safe_ext = (if ext \<in> set SAFE_EXTS then ext else ext)
      in token @ safe_ext)"

definition CHUNK :: nat where
  "CHUNK = 1024 * 1024"

text \<open>
  The copy loop: \<open>f.read(1024 * 1024)\<close> returns the next chunk of at most that many
  bytes, and the empty chunk at the end of the file stops the loop.
\<close>

function copy_chunks :: "string \<Rightarrow> string \<Rightarrow> string" where
  "copy_chunks inp out =
     (let chunk = take CHUNK inp in
      if chunk = [] then out
      else copy_chunks (drop CHUNK inp) (out @ chunk))"
  by pat_completeness auto
termination
  by (relation "measure (\<lambda>(inp, out). length inp)") (auto simp: CHUNK_def)

declare copy_chunks.simps [simp del]

text \<open>\<open>os.path.basename\<close>: the text after the last slash.\<close>

definition basename :: "string \<Rightarrow> string" where
  "basename p = rev (takeWhile (\<lambda>c. c \<noteq> CHR ''/'') (rev p))"

text \<open>The longest file name, in bytes, that a Linux file system accepts.\<close>

definition NAME_MAX :: nat where
  "NAME_MAX = 255"

text \<open>
  \<open>with open(path, "wb") as out\<close> and the writes under it. Two refusals depend on the
  path alone, and so on the name the client sent: Python raises \<open>ValueError\<close> for a path
  with a NUL character, and the system call fails with \<open>ENAMETOOLONG\<close> (36) for a file
  name longer than \<open>NAME_MAX\<close>. Every other failure (a full disk, a missing directory
  or permission) is the store's \<open>io_fault\<close>.
\<close>

definition os_open_write :: "storage \<Rightarrow> string \<Rightarrow> string \<Rightarrow> io_outcome" where
  "os_open_write s path data =
     (if CHR 0x00 \<in> set path then OpenRaises (ValueError ''embedded null byte'')
      else if NAME_MAX < length (basename path) then OpenRaises (OSError 36 ''File name too long'')
      else io_fault s path data)"

text \<open>
  The body of the \<open>for f in files\<close> loop: one file stored, one entry made. An exception
  of \<open>open\<close> or \<open>write\<close> is not caught: it ends the loop and the request.
\<close>

definition store_file :: "(nat \<Rightarrow> string) \<Rightarrow> string \<Rightarrow> string \<Rightarrow> UploadFile \<Rightarrow> storage \<Rightarrow> (py_exception + saved_entry) \<times> storage" where
  "store_file uuid4_hex UPLOAD_DIR base f s =
     (let fname = stored_name (uuid4_hex (uuid_calls s)) f;
          path = os_path_join UPLOAD_DIR fname;
          s1 = s \<lparr> uuid_calls := Suc (uuid_calls s) \<rparr>
      in case os_open_write s path (body f) of
           OpenRaises e \<Rightarrow> (Inl e, s1)
         | WriteRaises e partial \<Rightarrow> (Inl e, s1 \<lparr> disk := (disk s)(path \<mapsto> partial) \<rparr>)
         | IoOk \<Rightarrow>
             (let out = copy_chunks (body f) [];
                  u = base @ ''/uploads/'' @ fname
              in (Inr \<lparr> original = filename f, stored_as = fname, url = u, mime = content_type f \<rparr>,
                  s1 \<lparr> disk := (disk s)(path \<mapsto> out) \<rparr>)))"

fun store_loop :: "(nat \<Rightarrow> string) \<Rightarrow> string \<Rightarrow> string \<Rightarrow> UploadFile list \<Rightarrow> saved_entry list \<Rightarrow> storage \<Rightarrow> (py_exception + saved_entry list) \<times> storage" where
  "store_loop uuid4_hex UPLOAD_DIR base [] saved s = (Inr saved, s)"
| "store_loop uuid4_hex UPLOAD_DIR base (f # fs) saved s =
     (case store_file uuid4_hex UPLOAD_DIR base f s of
        (Inl e, s') \<Rightarrow> (Inl e, s')
      | (Inr entry, s') \<Rightarrow> store_loop uuid4_hex UPLOAD_DIR base fs (saved @ [entry]) s')"

definition upload_files :: "(nat \<Rightarrow> string) \<Rightarrow> string \<Rightarrow> string \<Rightarrow> UploadFile list \<Rightarrow> storage \<Rightarrow> (py_exception + upload_response) \<times> storage" where
  "upload_files uuid4_hex UPLOAD_DIR base_url fs s =
     (if fs = [] then (Inl (HTTPException 400 ''No files uploaded''), s)
      else
        (let base = rstrip_slash base_url
         in case store_loop uuid4_hex UPLOAD_DIR base fs [] s of
              (Inl e, s') \<Rightarrow> (Inl e, s')
            | (Inr saved, s') \<Rightarrow> (Inr \<lparr> count = length saved, files = saved \<rparr>, s')))"

section \<open>The words of the specification\<close>

text \<open>
  A reference is a video (an image) reference when its lower-cased form has one of the
  recognised extensions as a suffix.
\<close>

definition is_video_ref :: "string \<Rightarrow> bool" where
  "is_video_ref u = (\<exists>e \<in> {''.mp4'', ''.mov'', ''.mkv'', ''.webm''}. suffix e (lower u))"

definition is_image_ref :: "string \<Rightarrow> bool" where
  "is_image_ref u = (\<exists>e \<in> {''.jpg'', ''.jpeg'', ''.png'', ''.gif''}. suffix e (lower u))"

definition valid_template_id :: "string \<Rightarrow> bool" where
  "valid_template_id i = (i \<in> set (map id_t TEMPLATES))"





section \<open>Properties of instant edit\<close>

lemma endswith_suffix: "endswith s e = suffix e s"
proof
  assume "endswith s e"
  then have "s = take (length s - length e) s @ e"
    by (metis append_take_drop_id endswith_def)
  then show "suffix e s"
    by (metis suffixI)
next
  assume "suffix e s"
  then obtain zs where "s = zs @ e"
    by (auto simp: suffix_def)
  then show "endswith s e"
    by (simp add: endswith_def)
qed

lemma any_endswith_video: "any_endswith (lower u) video_exts = is_video_ref u"
  by (simp add: any_endswith_def video_exts_def is_video_ref_def endswith_suffix)

lemma any_endswith_image: "any_endswith (lower u) image_exts = is_image_ref u"
  by (simp add: any_endswith_def image_exts_def is_image_ref_def endswith_suffix)

lemma find_template_None:
  "\<not> valid_template_id i \<Longrightarrow> find (\<lambda>t. id_t t = i) TEMPLATES = None"
  by (auto simp: valid_template_id_def find_None_iff)

lemma find_template_Some:
  "valid_template_id i \<Longrightarrow> \<exists>tpl. find (\<lambda>t. id_t t = i) TEMPLATES = Some tpl \<and> tpl \<in> set TEMPLATES \<and> id_t tpl = i"
proof -
  assume "valid_template_id i"
  then have "find (\<lambda>t. id_t t = i) TEMPLATES \<noteq> None"
    by (auto simp: valid_template_id_def find_None_iff)
  then obtain tpl where f: "find (\<lambda>t. id_t t = i) TEMPLATES = Some tpl"
    by auto
  then have "tpl \<in> set TEMPLATES \<and> id_t tpl = i"
    by (auto simp: find_Some_iff in_set_conv_nth)
  with f show ?thesis by blast
qed

text \<open>
  C4. A template id that is not, character for character, the id of a catalog entry makes
  \<open>instant_edit\<close> raise the 404 error, whatever the asset list is; the lookup comes
  before the emptiness test, so an empty list gives the 404 error too.
\<close>

theorem instant_edit_unknown_template:
  "\<not> valid_template_id (template_id req) \<Longrightarrow>
     instant_edit req = Inl (HTTPException 404 ''Template not found'')"
  by (simp add: instant_edit_def find_template_None)

theorem instant_edit_unknown_template_witness:
  "\<not> valid_template_id ''Reel-916-bold'' \<and>
   instant_edit \<lparr> template_id = ''Reel-916-bold'', assets = [], title = None, subtitle = None,
                   brand_color = None, logo_url = None \<rparr>
     = Inl (HTTPException 404 ''Template not found'')"
proof -
  have h: "\<not> valid_template_id (template_id \<lparr> template_id = ''Reel-916-bold'', assets = [], title = None,
             subtitle = None, brand_color = None, logo_url = None \<rparr>)"
    by (simp add: valid_template_id_def TEMPLATES_def)
  show ?thesis
    using h instant_edit_unknown_template [OF h] by simp
qed

text \<open>
  C7. With a template id of the catalog and an empty asset list, \<open>instant_edit\<close> raises
  the 400 validation error.
\<close>

theorem instant_edit_no_assets:
  "valid_template_id (template_id req) \<Longrightarrow> assets req = [] \<Longrightarrow>
     instant_edit req = Inl (HTTPException 400 ''No assets provided'')"
  using find_template_Some [of "template_id req"]
  by (auto simp: instant_edit_def)

theorem instant_edit_no_assets_witness:
  "valid_template_id ''event-11-pop'' \<and>
   instant_edit \<lparr> template_id = ''event-11-pop'', assets = [], title = None, subtitle = None,
                   brand_color = None, logo_url = None \<rparr>
     = Inl (HTTPException 400 ''No assets provided'')"
proof -
  have h: "valid_template_id (template_id \<lparr> template_id = ''event-11-pop'', assets = [], title = None,
             subtitle = None, brand_color = None, logo_url = None \<rparr>)"
    by (simp add: valid_template_id_def TEMPLATES_def)
  show ?thesis
    using h instant_edit_no_assets [OF h] by simp
qed

lemma is_video_ref_code: "is_video_ref u = any_endswith (lower u) video_exts"
  by (simp add: any_endswith_video)

lemma is_image_ref_code: "is_image_ref u = any_endswith (lower u) image_exts"
  by (simp add: any_endswith_image)

lemmas str_eval =
  is_video_ref_code is_image_ref_code any_endswith_def video_exts_def image_exts_def
  endswith_def lower_def lower_char_def ascii_uppercase_def ascii_lowercase_def

lemma scan_assets_first:
  "\<forall>v \<in> set pre. \<not> any_endswith (lower v) exts \<Longrightarrow> any_endswith (lower u) exts \<Longrightarrow>
     scan_assets exts ty (pre @ u # post) st = (u, ty)"
  by (induction pre) simp_all

lemma scan_assets_none:
  "\<forall>v \<in> set as. \<not> any_endswith (lower v) exts \<Longrightarrow> scan_assets exts ty as st = st"
  by (induction as) simp_all

lemma scan_assets_skip:
  "\<not> any_endswith (lower u) exts \<Longrightarrow>
     scan_assets exts ty (pre @ u # post) st = scan_assets exts ty (pre @ post) st"
  by (induction pre) simp_all

lemma video_ref_nonempty: "is_video_ref u \<Longrightarrow> u \<noteq> []"
  by (auto simp: is_video_ref_def lower_def suffix_def)

lemma image_ref_nonempty: "is_image_ref u \<Longrightarrow> u \<noteq> []"
  by (auto simp: is_image_ref_def lower_def suffix_def)

lemma scan_assets_cases:
  "(scan_assets exts ty as st = st \<and> (\<forall>v \<in> set as. \<not> any_endswith (lower v) exts))
   \<or> (\<exists>pre u post. as = pre @ u # post \<and> (\<forall>v \<in> set pre. \<not> any_endswith (lower v) exts)
        \<and> any_endswith (lower u) exts \<and> scan_assets exts ty as st = (u, ty))"
proof (cases "\<exists>v \<in> set as. any_endswith (lower v) exts")
  case True
  then obtain pre u post where "as = pre @ u # post" "any_endswith (lower u) exts"
     "\<forall>v \<in> set pre. \<not> any_endswith (lower v) exts"
    using split_list_first_prop [of as "\<lambda>v. any_endswith (lower v) exts"] by blast
  then show ?thesis using scan_assets_first by blast
next
  case False
  then show ?thesis using scan_assets_none by blast
qed

lemma video_pass_sentinel:
  "(fst (scan_assets video_exts ''video'' as ([], ''unknown'')) = []) = (\<forall>v \<in> set as. \<not> is_video_ref v)"
proof (cases "\<exists>v \<in> set as. is_video_ref v")
  case True
  then obtain pre u post where s: "as = pre @ u # post" "is_video_ref u" "\<forall>v \<in> set pre. \<not> is_video_ref v"
    using split_list_first_prop [of as is_video_ref] by blast
  have "scan_assets video_exts ''video'' (pre @ u # post) ([], ''unknown'') = (u, ''video'')"
    using s(2,3) by (intro scan_assets_first) (simp_all add: any_endswith_video)
  moreover have "u \<noteq> []"
    using s(2) by (rule video_ref_nonempty)
  ultimately have "fst (scan_assets video_exts ''video'' as ([], ''unknown'')) \<noteq> []"
    using s(1) by simp
  with True show ?thesis by blast
next
  case False
  then have "scan_assets video_exts ''video'' as ([], ''unknown'') = ([], ''unknown'')"
    by (intro scan_assets_none) (simp add: any_endswith_video)
  with False show ?thesis by simp
qed

lemma image_pass_sentinel:
  "(fst (scan_assets image_exts ''image'' as ([], ''unknown'')) = []) = (\<forall>v \<in> set as. \<not> is_image_ref v)"
proof (cases "\<exists>v \<in> set as. is_image_ref v")
  case True
  then obtain pre u post where s: "as = pre @ u # post" "is_image_ref u" "\<forall>v \<in> set pre. \<not> is_image_ref v"
    using split_list_first_prop [of as is_image_ref] by blast
  have "scan_assets image_exts ''image'' (pre @ u # post) ([], ''unknown'') = (u, ''image'')"
    using s(2,3) by (intro scan_assets_first) (simp_all add: any_endswith_image)
  moreover have "u \<noteq> []"
    using s(2) by (rule image_ref_nonempty)
  ultimately have "fst (scan_assets image_exts ''image'' as ([], ''unknown'')) \<noteq> []"
    using s(1) by simp
  with True show ?thesis by blast
next
  case False
  then have "scan_assets image_exts ''image'' as ([], ''unknown'') = ([], ''unknown'')"
    by (intro scan_assets_none) (simp add: any_endswith_image)
  with False show ?thesis by simp
qed

lemma pick_preview_video:
  assumes "\<forall>v \<in> set pre. \<not> is_video_ref v" "is_video_ref u"
  shows "pick_preview (pre @ u # post) = (u, ''video'')"
proof -
  have "scan_assets video_exts ''video'' (pre @ u # post) ([], ''unknown'') = (u, ''video'')"
    using assms by (intro scan_assets_first) (simp_all add: any_endswith_video)
  moreover have "u \<noteq> []" using assms(2) by (rule video_ref_nonempty)
  ultimately show ?thesis by (simp add: pick_preview_def)
qed

lemma pick_preview_image:
  assumes "\<forall>v \<in> set (pre @ u # post). \<not> is_video_ref v" "\<forall>v \<in> set pre. \<not> is_image_ref v" "is_image_ref u"
  shows "pick_preview (pre @ u # post) = (u, ''image'')"
proof -
  have "scan_assets video_exts ''video'' (pre @ u # post) ([], ''unknown'') = ([], ''unknown'')"
    using assms(1) by (intro scan_assets_none) (simp add: any_endswith_video)
  moreover have "scan_assets image_exts ''image'' (pre @ u # post) ([], ''unknown'') = (u, ''image'')"
    using assms(2,3) by (intro scan_assets_first) (simp_all add: any_endswith_image)
  moreover have "u \<noteq> []" using assms(3) by (rule image_ref_nonempty)
  ultimately show ?thesis by (simp add: pick_preview_def)
qed

lemma pick_preview_placeholder:
  assumes "\<forall>v \<in> set as. \<not> is_video_ref v" "\<forall>v \<in> set as. \<not> is_image_ref v"
  shows "pick_preview as = (PLACEHOLDER_URL, ''placeholder'')"
proof -
  have "scan_assets video_exts ''video'' as ([], ''unknown'') = ([], ''unknown'')"
    using assms(1) by (intro scan_assets_none) (simp add: any_endswith_video)
  moreover have "scan_assets image_exts ''image'' as ([], ''unknown'') = ([], ''unknown'')"
    using assms(2) by (intro scan_assets_none) (simp add: any_endswith_image)
  ultimately show ?thesis by (simp add: pick_preview_def)
qed

lemma pick_preview_skip:
  assumes "\<not> is_video_ref u" "\<not> is_image_ref u"
  shows "pick_preview (pre @ u # post) = pick_preview (pre @ post)"
proof -
  have v: "scan_assets video_exts ''video'' (pre @ u # post) st = scan_assets video_exts ''video'' (pre @ post) st" for st
    using assms(1) by (intro scan_assets_skip) (simp add: any_endswith_video)
  have i: "scan_assets image_exts ''image'' (pre @ u # post) st = scan_assets image_exts ''image'' (pre @ post) st" for st
    using assms(2) by (intro scan_assets_skip) (simp add: any_endswith_image)
  show ?thesis
    unfolding pick_preview_def v i ..
qed

lemma pick_preview_cases:
  "(\<exists>pre u post. as = pre @ u # post \<and> (\<forall>v \<in> set pre. \<not> is_video_ref v) \<and> is_video_ref u \<and>
       pick_preview as = (u, ''video''))
   \<or> (\<exists>pre u post. as = pre @ u # post \<and> (\<forall>v \<in> set as. \<not> is_video_ref v) \<and>
       (\<forall>v \<in> set pre. \<not> is_image_ref v) \<and> is_image_ref u \<and> pick_preview as = (u, ''image''))
   \<or> ((\<forall>v \<in> set as. \<not> is_video_ref v) \<and> (\<forall>v \<in> set as. \<not> is_image_ref v) \<and>
       pick_preview as = (PLACEHOLDER_URL, ''placeholder''))"
proof (cases "\<exists>v \<in> set as. is_video_ref v")
  case True
  then obtain pre u post where s: "as = pre @ u # post" "is_video_ref u" "\<forall>v \<in> set pre. \<not> is_video_ref v"
    using split_list_first_prop [of as is_video_ref] by blast
  have "pick_preview as = (u, ''video'')"
    unfolding s(1) using s(3,2) by (rule pick_preview_video)
  with s have "\<exists>pre u post. as = pre @ u # post \<and> (\<forall>v \<in> set pre. \<not> is_video_ref v) \<and> is_video_ref u \<and>
       pick_preview as = (u, ''video'')"
    by blast
  then show ?thesis by (rule disjI1)
next
  case False
  then have nv: "\<forall>v \<in> set as. \<not> is_video_ref v" by simp
  show ?thesis
  proof (cases "\<exists>v \<in> set as. is_image_ref v")
    case True
    then obtain pre u post where s: "as = pre @ u # post" "is_image_ref u" "\<forall>v \<in> set pre. \<not> is_image_ref v"
      using split_list_first_prop [of as is_image_ref] by blast
    have "pick_preview (pre @ u # post) = (u, ''image'')"
      using nv s(3,2) unfolding s(1) by (rule pick_preview_image)
    then have "pick_preview as = (u, ''image'')"
      using s(1) by simp
    with s nv have "\<exists>pre u post. as = pre @ u # post \<and> (\<forall>v \<in> set as. \<not> is_video_ref v) \<and>
       (\<forall>v \<in> set pre. \<not> is_image_ref v) \<and> is_image_ref u \<and> pick_preview as = (u, ''image'')"
      by blast
    then show ?thesis by (intro disjI2 disjI1)
  next
    case False
    then have ni: "\<forall>v \<in> set as. \<not> is_image_ref v" by simp
    have "pick_preview as = (PLACEHOLDER_URL, ''placeholder'')"
      using nv ni by (rule pick_preview_placeholder)
    with nv ni show ?thesis by (intro disjI2) simp
  qed
qed

lemma instant_edit_ok:
  "find (\<lambda>t. id_t t = template_id req) TEMPLATES = Some tpl \<Longrightarrow> assets req \<noteq> [] \<Longrightarrow>
   instant_edit req = Inr \<lparr> template = tpl, preview_type = snd (pick_preview (assets req)),
      preview_url = fst (pick_preview (assets req)), used_assets = assets req, notes_f = NOTES \<rparr>"
  by (simp add: instant_edit_def split: prod.splits)

lemma instant_edit_Inr:
  assumes "instant_edit req = Inr r"
  shows "assets req \<noteq> [] \<and> preview_url r = fst (pick_preview (assets req)) \<and>
         preview_type r = snd (pick_preview (assets req))"
proof -
  obtain tpl where t: "find (\<lambda>t. id_t t = template_id req) TEMPLATES = Some tpl"
    using assms by (cases "find (\<lambda>t. id_t t = template_id req) TEMPLATES") (auto simp: instant_edit_def)
  have ne: "assets req \<noteq> []"
    using assms t by (auto simp: instant_edit_def)
  show ?thesis
    using assms ne instant_edit_ok [OF t ne] by auto
qed

text \<open>
  C1. With a template id of the catalog, if some reference of the asset list is a video
  reference, \<open>instant_edit\<close> succeeds and the preview is the first video reference of the
  list, classified \<open>video\<close>; references before it are not video references but may well
  be image references.
\<close>

theorem instant_edit_video_first:
  assumes "valid_template_id (template_id req)" and "\<exists>v \<in> set (assets req). is_video_ref v"
  shows "\<exists>tpl pre u post.
           find (\<lambda>t. id_t t = template_id req) TEMPLATES = Some tpl \<and>
           assets req = pre @ u # post \<and> (\<forall>v \<in> set pre. \<not> is_video_ref v) \<and> is_video_ref u \<and>
           instant_edit req = Inr \<lparr> template = tpl, preview_type = ''video'', preview_url = u,
                                     used_assets = assets req, notes_f = NOTES \<rparr>"
proof -
  obtain tpl where t: "find (\<lambda>t. id_t t = template_id req) TEMPLATES = Some tpl"
    using find_template_Some [OF assms(1)] by blast
  obtain pre u post where s: "assets req = pre @ u # post" "is_video_ref u"
      "\<forall>v \<in> set pre. \<not> is_video_ref v"
    using split_list_first_prop [OF assms(2)] by blast
  have "instant_edit req = Inr \<lparr> template = tpl, preview_type = ''video'', preview_url = u,
                                     used_assets = assets req, notes_f = NOTES \<rparr>"
    using instant_edit_ok [OF t] s pick_preview_video [of pre u post] by simp
  with t s show ?thesis by blast
qed

theorem instant_edit_video_first_witness:
  "valid_template_id ''reel-916-bold'' \<and> (\<exists>v \<in> set [''a.png'', ''b.MP4'']. is_video_ref v) \<and>
   is_image_ref ''a.png'' \<and>
   (\<exists>tpl. instant_edit \<lparr> template_id = ''reel-916-bold'', assets = [''a.png'', ''b.MP4''],
                            title = None, subtitle = None, brand_color = None, logo_url = None \<rparr>
      = Inr \<lparr> template = tpl, preview_type = ''video'', preview_url = ''b.MP4'',
               used_assets = [''a.png'', ''b.MP4''], notes_f = NOTES \<rparr>)"
proof -
  let ?req = "\<lparr> template_id = ''reel-916-bold'', assets = [''a.png'', ''b.MP4''],
                 title = None, subtitle = None, brand_color = None, logo_url = None \<rparr>"
  have h1: "valid_template_id (template_id ?req)"
    by (simp add: valid_template_id_def TEMPLATES_def)
  have v: "is_video_ref ''b.MP4''"
    by (simp add: str_eval)
  have nv: "\<not> is_video_ref ''a.png''"
    by (simp add: str_eval)
  have i: "is_image_ref ''a.png''"
    by (simp add: str_eval)
  have h2: "\<exists>v \<in> set (assets ?req). is_video_ref v"
    using v by simp
  show ?thesis
    using h1 h2 i instant_edit_video_first [OF h1 h2] nv
    by (auto simp: append_eq_Cons_conv Cons_eq_append_conv)
qed

text \<open>
  C5. With a template id of the catalog, if no reference of the asset list is a video
  reference and some reference is an image reference, \<open>instant_edit\<close> succeeds and the
  preview is the first image reference of the list, classified \<open>image\<close>.
\<close>

theorem instant_edit_image_first:
  assumes "valid_template_id (template_id req)"
    and "\<forall>v \<in> set (assets req). \<not> is_video_ref v"
    and "\<exists>v \<in> set (assets req). is_image_ref v"
  shows "\<exists>tpl pre u post.
           find (\<lambda>t. id_t t = template_id req) TEMPLATES = Some tpl \<and>
           assets req = pre @ u # post \<and> (\<forall>v \<in> set pre. \<not> is_image_ref v) \<and> is_image_ref u \<and>
           instant_edit req = Inr \<lparr> template = tpl, preview_type = ''image'', preview_url = u,
                                     used_assets = assets req, notes_f = NOTES \<rparr>"
proof -
  obtain tpl where t: "find (\<lambda>t. id_t t = template_id req) TEMPLATES = Some tpl"
    using find_template_Some [OF assms(1)] by blast
  obtain pre u post where s: "assets req = pre @ u # post" "is_image_ref u"
      "\<forall>v \<in> set pre. \<not> is_image_ref v"
    using split_list_first_prop [OF assms(3)] by blast
  have "pick_preview (pre @ u # post) = (u, ''image'')"
    using assms(2) s by (intro pick_preview_image) simp_all
  then have "instant_edit req = Inr \<lparr> template = tpl, preview_type = ''image'', preview_url = u,
                                     used_assets = assets req, notes_f = NOTES \<rparr>"
    using instant_edit_ok [OF t] s by simp
  with t s show ?thesis by blast
qed

theorem instant_edit_image_first_witness:
  "valid_template_id ''reel-916-bold'' \<and> \<not> is_video_ref ''a.png'' \<and> \<not> is_video_ref ''b.jpg'' \<and>
   is_image_ref ''a.png'' \<and>
   (\<exists>tpl. instant_edit \<lparr> template_id = ''reel-916-bold'', assets = [''a.png'', ''b.jpg''],
                            title = None, subtitle = None, brand_color = None, logo_url = None \<rparr>
      = Inr \<lparr> template = tpl, preview_type = ''image'', preview_url = ''a.png'',
               used_assets = [''a.png'', ''b.jpg''], notes_f = NOTES \<rparr>)"
proof -
  let ?req = "\<lparr> template_id = ''reel-916-bold'', assets = [''a.png'', ''b.jpg''],
                 title = None, subtitle = None, brand_color = None, logo_url = None \<rparr>"
  have h1: "valid_template_id (template_id ?req)"
    by (simp add: valid_template_id_def TEMPLATES_def)
  have i: "is_image_ref ''a.png''"
    by (simp add: str_eval)
  have h2: "\<forall>v \<in> set (assets ?req). \<not> is_video_ref v"
    by (simp add: str_eval)
  have h3: "\<exists>v \<in> set (assets ?req). is_image_ref v"
    using i by simp
  show ?thesis
    using h1 h2 h3 i instant_edit_image_first [OF h1 h2 h3]
    by (auto simp: append_eq_Cons_conv Cons_eq_append_conv)
qed

text \<open>
  C6. With a template id of the catalog and a non-empty asset list of which no reference
  is a video or an image reference, \<open>instant_edit\<close> succeeds with the classification
  \<open>placeholder\<close> and the fixed placeholder reference, a constant of the program that
  does not depend on the asset list.
\<close>

theorem instant_edit_placeholder:
  assumes "valid_template_id (template_id req)" and "assets req \<noteq> []"
    and "\<forall>v \<in> set (assets req). \<not> is_video_ref v \<and> \<not> is_image_ref v"
  shows "\<exists>tpl. find (\<lambda>t. id_t t = template_id req) TEMPLATES = Some tpl \<and>
           instant_edit req = Inr \<lparr> template = tpl, preview_type = ''placeholder'',
                                     preview_url = ''https://placehold.co/1280x720?text=Instant+Preview'',
                                     used_assets = assets req, notes_f = NOTES \<rparr>"
proof -
  obtain tpl where t: "find (\<lambda>t. id_t t = template_id req) TEMPLATES = Some tpl"
    using find_template_Some [OF assms(1)] by blast
  have "pick_preview (assets req) = (PLACEHOLDER_URL, ''placeholder'')"
    using assms(3) by (intro pick_preview_placeholder) simp_all
  then have "instant_edit req = Inr \<lparr> template = tpl, preview_type = ''placeholder'',
                                     preview_url = ''https://placehold.co/1280x720?text=Instant+Preview'',
                                     used_assets = assets req, notes_f = NOTES \<rparr>"
    using instant_edit_ok [OF t assms(2)] by (simp add: PLACEHOLDER_URL_def)
  with t show ?thesis by blast
qed

theorem instant_edit_placeholder_witness:
  "valid_template_id ''corporate-169-clean'' \<and> [''a.pdf''] \<noteq> [] \<and>
   \<not> is_video_ref ''a.pdf'' \<and> \<not> is_image_ref ''a.pdf'' \<and>
   (\<exists>tpl. instant_edit \<lparr> template_id = ''corporate-169-clean'', assets = [''a.pdf''],
                            title = None, subtitle = None, brand_color = None, logo_url = None \<rparr>
      = Inr \<lparr> template = tpl, preview_type = ''placeholder'',
               preview_url = ''https://placehold.co/1280x720?text=Instant+Preview'',
               used_assets = [''a.pdf''], notes_f = NOTES \<rparr>)"
proof -
  let ?req = "\<lparr> template_id = ''corporate-169-clean'', assets = [''a.pdf''],
                 title = None, subtitle = None, brand_color = None, logo_url = None \<rparr>"
  have h1: "valid_template_id (template_id ?req)"
    by (simp add: valid_template_id_def TEMPLATES_def)
  have h2: "assets ?req \<noteq> []"
    by simp
  have h3: "\<forall>v \<in> set (assets ?req). \<not> is_video_ref v \<and> \<not> is_image_ref v"
    by (simp add: str_eval)
  show ?thesis
    using h1 h3 instant_edit_placeholder [OF h1 h2 h3] by auto
qed

text \<open>
  C9. A reference whose lower-cased form has no recognised extension as a suffix, such as
  one that carries a query string after \<open>.mp4\<close>, is skipped by the video pass and by the
  image pass, and the preview is the one computed from the asset list without it.
\<close>

theorem instant_edit_skips_unrecognised:
  assumes "valid_template_id (template_id req)" and "assets req = pre @ u # post"
    and "\<not> is_video_ref u" and "\<not> is_image_ref u"
  shows "\<exists>tpl. find (\<lambda>t. id_t t = template_id req) TEMPLATES = Some tpl \<and>
           (\<forall>rest st. scan_assets video_exts ''video'' (u # rest) st = scan_assets video_exts ''video'' rest st) \<and>
           (\<forall>rest st. scan_assets image_exts ''image'' (u # rest) st = scan_assets image_exts ''image'' rest st) \<and>
           instant_edit req = Inr \<lparr> template = tpl, preview_type = snd (pick_preview (pre @ post)),
                                     preview_url = fst (pick_preview (pre @ post)),
                                     used_assets = assets req, notes_f = NOTES \<rparr>"
proof -
  obtain tpl where t: "find (\<lambda>t. id_t t = template_id req) TEMPLATES = Some tpl"
    using find_template_Some [OF assms(1)] by blast
  have ne: "assets req \<noteq> []"
    using assms(2) by simp
  have "pick_preview (assets req) = pick_preview (pre @ post)"
    using assms(2) pick_preview_skip [OF assms(3,4)] by simp
  then have "instant_edit req = Inr \<lparr> template = tpl, preview_type = snd (pick_preview (pre @ post)),
                                     preview_url = fst (pick_preview (pre @ post)),
                                     used_assets = assets req, notes_f = NOTES \<rparr>"
    using instant_edit_ok [OF t ne] by simp
  moreover have "scan_assets video_exts ''video'' (u # rest) st = scan_assets video_exts ''video'' rest st" for rest st
    using assms(3) by (simp add: any_endswith_video)
  moreover have "scan_assets image_exts ''image'' (u # rest) st = scan_assets image_exts ''image'' rest st" for rest st
    using assms(4) by (simp add: any_endswith_image)
  ultimately show ?thesis using t by blast
qed

theorem instant_edit_skips_unrecognised_witness:
  "valid_template_id ''event-11-pop'' \<and>
   \<not> is_video_ref ''https://cdn.example/video.mp4?x=1'' \<and>
   \<not> is_image_ref ''https://cdn.example/video.mp4?x=1'' \<and>
   (\<exists>tpl. instant_edit \<lparr> template_id = ''event-11-pop'',
                            assets = [''https://cdn.example/video.mp4?x=1'', ''a.png''],
                            title = None, subtitle = None, brand_color = None, logo_url = None \<rparr>
      = Inr \<lparr> template = tpl, preview_type = snd (pick_preview [''a.png'']),
               preview_url = fst (pick_preview [''a.png'']),
               used_assets = [''https://cdn.example/video.mp4?x=1'', ''a.png''], notes_f = NOTES \<rparr>)"
proof -
  let ?req = "\<lparr> template_id = ''event-11-pop'',
                 assets = [''https://cdn.example/video.mp4?x=1'', ''a.png''],
                 title = None, subtitle = None, brand_color = None, logo_url = None \<rparr>"
  have h1: "valid_template_id (template_id ?req)"
    by (simp add: valid_template_id_def TEMPLATES_def)
  have h2: "assets ?req = [] @ ''https://cdn.example/video.mp4?x=1'' # [''a.png'']"
    by simp
  have h3: "\<not> is_video_ref ''https://cdn.example/video.mp4?x=1''"
    by (simp add: str_eval)
  have h4: "\<not> is_image_ref ''https://cdn.example/video.mp4?x=1''"
    by (simp add: str_eval)
  show ?thesis
    using h1 h3 h4 instant_edit_skips_unrecognised [OF h1 h2 h3 h4] by auto
qed

text \<open>
  C10. Whenever \<open>instant_edit\<close> succeeds, the classification it returns is \<open>video\<close>,
  \<open>image\<close> or \<open>placeholder\<close>, never the initial \<open>unknown\<close>, and the preview reference
  is not empty. The reason: after either pass the reference variable is empty exactly
  when no reference of the list matched, since a matching reference is never empty.
\<close>

theorem instant_edit_preview_type:
  assumes "instant_edit req = Inr r"
  shows "preview_type r \<in> {''video'', ''image'', ''placeholder''} \<and>
         preview_type r \<noteq> ''unknown'' \<and> preview_url r \<noteq> [] \<and>
         ((fst (scan_assets video_exts ''video'' (assets req) ([], ''unknown'')) = [])
            = (\<forall>v \<in> set (assets req). \<not> is_video_ref v)) \<and>
         ((fst (scan_assets image_exts ''image'' (assets req) ([], ''unknown'')) = [])
            = (\<forall>v \<in> set (assets req). \<not> is_image_ref v))"
proof -
  have p: "preview_url r = fst (pick_preview (assets req))" "preview_type r = snd (pick_preview (assets req))"
    using instant_edit_Inr [OF assms] by simp_all
  have "preview_type r \<in> {''video'', ''image'', ''placeholder''} \<and> preview_url r \<noteq> []"
    using pick_preview_cases [of "assets req"] p video_ref_nonempty image_ref_nonempty
    by (auto simp: PLACEHOLDER_URL_def)
  then show ?thesis
    using video_pass_sentinel [of "assets req"] image_pass_sentinel [of "assets req"] by auto
qed

theorem instant_edit_preview_type_witness:
  "instant_edit \<lparr> template_id = ''reel-916-bold'', assets = [''notes.txt'', ''clip.MOV''],
                   title = None, subtitle = None, brand_color = None, logo_url = None \<rparr>
     = Inr \<lparr> template = hd TEMPLATES, preview_type = ''video'', preview_url = ''clip.MOV'',
              used_assets = [''notes.txt'', ''clip.MOV''], notes_f = NOTES \<rparr> \<and>
   ''video'' \<in> {''video'', ''image'', ''placeholder''} \<and> ''video'' \<noteq> ''unknown'' \<and> ''clip.MOV'' \<noteq> []"
proof -
  let ?req = "\<lparr> template_id = ''reel-916-bold'', assets = [''notes.txt'', ''clip.MOV''],
                 title = None, subtitle = None, brand_color = None, logo_url = None \<rparr>"
  let ?r = "\<lparr> template = hd TEMPLATES, preview_type = ''video'', preview_url = ''clip.MOV'',
              used_assets = [''notes.txt'', ''clip.MOV''], notes_f = NOTES \<rparr>"
  have h: "instant_edit ?req = Inr ?r"
    by (simp add: instant_edit_def TEMPLATES_def pick_preview_def any_endswith_def video_exts_def
          endswith_def lower_def lower_char_def ascii_uppercase_def ascii_lowercase_def)
  show ?thesis
    using h instant_edit_preview_type [OF h] by simp
qed

section \<open>Properties of paths and names\<close>



















lemma copy_chunks_eq: "copy_chunks inp out = out @ inp"
proof (induction inp out rule: copy_chunks.induct)
  case (1 inp out)
  show ?case
  proof (cases "take CHUNK inp = []")
    case True
    then have "inp = []" by (simp add: CHUNK_def)
    then show ?thesis by (simp add: copy_chunks.simps)
  next
    case False
    then have "copy_chunks inp out = copy_chunks (drop CHUNK inp) (out @ take CHUNK inp)"
      by (subst copy_chunks.simps) (simp add: Let_def)
    also have "\<dots> = (out @ take CHUNK inp) @ drop CHUNK inp"
      using False by (intro "1.IH") simp_all
    finally show ?thesis by simp
  qed
qed

section \<open>Properties of upload\<close>















text \<open>
  C8. \<open>upload_files\<close> on an empty sequence of files raises the 400 error "No files
  uploaded" and leaves the store as it was: no file is written.
\<close>

theorem upload_files_empty:
  "upload_files uuid4_hex UPLOAD_DIR base_url [] s = (Inl (HTTPException 400 ''No files uploaded''), s)"
  by (simp add: upload_files_def)




text \<open>
  C2. The stored name is the drawn identifier followed by the lower-cased extension of the
  original name, whatever that extension is: the conditional that computes \<open>safe_ext\<close>
  returns \<open>ext\<close> in both branches, so an extension outside the list of the source, here
  one with a semicolon, reaches the stored name unchanged.
\<close>

theorem stored_name_unlisted_extension:
  "stored_name token \<lparr> filename = Some ''note.SH;id'', content_type = None, body = [] \<rparr>
     = token @ ''.sh;id'' \<and>
   ''.sh;id'' \<notin> set SAFE_EXTS"
  by (simp add: stored_name_def splitext_def rfind_def splitext_loop.simps lower_def lower_char_def
        ascii_uppercase_def ascii_lowercase_def SAFE_EXTS_def)

end
